theory Spec2Isabelle
  imports Complex_Main "HOL-Library.Char_ord" "HOL-Library.List_Lexorder"
begin

section \<open>Data model of \<^verbatim>\<open>python/strategy/_classes.py\<close>\<close>

text \<open>
  A \<^verbatim>\<open>datetime.date\<close> is modelled by its proleptic Gregorian ordinal, so that the
  comparison of dates is the comparison of integers. The amounts of money are
  Python \<^verbatim>\<open>float\<close>s. In \<open>fill\<close> and \<open>get_value\<close> below they are real numbers and
  the arithmetic is exact; \<open>fill_binary64\<close> is \<^verbatim>\<open>Order.fill\<close> with the arithmetic
  of the binary64 format, rounding and overflow included. A Python \<^verbatim>\<open>int\<close> is an \<^typ>\<open>int\<close>, a \<^verbatim>\<open>str\<close> a
  \<^typ>\<open>string\<close>, compared lexicographically by character code as Python does.
\<close>

type_synonym date = int

text \<open>
  The exceptions that cross the functions modelled here. \<open>ValueError\<close> is the one
  \<^verbatim>\<open>Strategy.get_instrument\<close> raises; its message is assembled from exactly four
  values (the ticker, \<^verbatim>\<open>self.today\<close>, the instrument's first and last date), which
  the constructor carries in that order. \<open>KeyError\<close> is what a missing field of a day's
  record raises, with the name of the field. \<open>NotFound\<close> is the failure of a lookup in
  an instrument's records. \<open>OverflowError\<close> is what the conversion of an \<^verbatim>\<open>int\<close> to a
  \<^verbatim>\<open>float\<close> raises when the integer is too large.
\<close>

datatype error =
    ValueError string date "date option" "date option"
  | KeyError string
  | NotFound
  | OverflowError

text \<open>
  One day of one instrument. The source reads the fields \<^verbatim>\<open>'close'\<close> and
  \<^verbatim>\<open>'value'\<close> of a record and handles the absence of \<^verbatim>\<open>'close'\<close>, so these two
  are optional. The field names carry the prefix \<open>tr_\<close>.
\<close>

record time_record =
  tr_date :: date
  tr_open :: real
  tr_high :: real
  tr_low :: real
  tr_close :: "real option"
  tr_value :: "real option"
  tr_volume :: real

text \<open>
  An \<^verbatim>\<open>Instrument\<close> object: its ticker and its attribute \<^verbatim>\<open>data\<close>, the array of
  records.
\<close>

record instrument =
  instrument_ticker :: string
  data :: "time_record list"

text \<open>
  \<^verbatim>\<open>class Order\<close>. The attributes \<^verbatim>\<open>brokerage\<close> and \<^verbatim>\<open>total\<close> do not exist before
  \<^verbatim>\<open>fill\<close> assigns them; \<open>None\<close> stands for an attribute that is not set and for
  Python's \<^verbatim>\<open>None\<close>. The field \<^verbatim>\<open>total\<close> is named \<open>total_amount\<close>. The type parameter is
  the type of the amounts.
\<close>

record 'n order =
  ticker :: string
  action :: string
  quantity :: int
  price :: "'n option"
  filled :: bool
  filled_price :: "'n option"
  cost :: "'n option"
  brokerage :: "'n option"
  total_amount :: "'n option"

text \<open>\<^verbatim>\<open>Order.__init__(self, ticker, action, quantity, price=None)\<close>\<close>

definition Order :: "string \<Rightarrow> string \<Rightarrow> int \<Rightarrow> 'n option \<Rightarrow> 'n order" where
  "Order t a q p =
     \<lparr>ticker = t, action = a, quantity = q, price = p, filled = False,
      filled_price = None, cost = None, brokerage = None, total_amount = None\<rparr>"

text \<open>\<^verbatim>\<open>class Share\<close>; the field names carry the prefix \<open>share_\<close>.\<close>

record share =
  share_ticker :: string
  share_quantity :: int
  share_price :: real

text \<open>
  The state of a \<^verbatim>\<open>Strategy\<close>. A subclass adds attributes of its own: they are the
  extension part of the record scheme.
\<close>

record strategy =
  money :: real
  portfolio :: "string \<rightharpoonup> share"
  today :: date
  from_date :: date
  to_date :: date

section \<open>Objects and references\<close>

text \<open>
  \<^verbatim>\<open>Strategy.get_instrument\<close> assigns to an attribute of an \<^verbatim>\<open>Instrument\<close> object,
  and the market-data module hands out references to the objects it holds. The objects
  therefore live in a store: a reference is a position in the list of all
  \<^verbatim>\<open>Instrument\<close> objects allocated so far, and a new object is appended at the end.
  A Python reference always designates a live object, so every reference \<open>a\<close> that
  the theorems read satisfies \<open>a < length h\<close>.
\<close>

type_synonym ref = nat
type_synonym heap = "instrument list"

text \<open>
  \<^verbatim>\<open>copy.deepcopy\<close> of an \<^verbatim>\<open>Instrument\<close>: a new object with the same contents.
\<close>

definition deepcopy :: "ref \<Rightarrow> heap \<Rightarrow> ref \<times> heap" where
  "deepcopy a h = (length h, h @ [h ! a])"

text \<open>
  \<^verbatim>\<open>np.delete(arr, np.s_[start:])\<close> on a one-dimensional array: a new array without the
  elements whose position lies in the slice, here the positions from \<open>start\<close> on.
\<close>

definition np_delete :: "'a list \<Rightarrow> nat \<Rightarrow> 'a list" where
  "np_delete arr start =
     map fst (filter (\<lambda>(x, k). \<not> start \<le> k) (zip arr [0..<length arr]))"

section \<open>The collaborators\<close>

text \<open>
  The module \<^verbatim>\<open>markets\<close> is imported by the source and is not part of it. It is a
  parameter of the model: \<open>markets_get_instrument\<close> returns a reference to the
  \<^verbatim>\<open>Instrument\<close> the module holds for a ticker, or raises;
  \<open>markets_get_tickers\<close> is the collection of all tickers in the order in which it
  is iterated; \<open>markets_trading_days\<close> is the sequence that
  \<^verbatim>\<open>markets.trading_days\<close> produces.
\<close>

record markets =
  markets_get_instrument :: "string \<Rightarrow> error + ref"
  markets_get_tickers :: "string list"
  markets_trading_days :: "date \<Rightarrow> date \<Rightarrow> date list"
  markets_trading_days_ago :: "date \<Rightarrow> int \<Rightarrow> error + date"

text \<open>
  Modelled from the spec: the methods of \<^verbatim>\<open>Instrument\<close>, whose class is defined in
  the module \<^verbatim>\<open>markets\<close>. The spec (4.1): \<^verbatim>\<open>existed_at_date(date)\<close> is true iff the
  instrument has at least one record on or before \<^verbatim>\<open>date\<close>.
\<close>

definition existed_at_date :: "instrument \<Rightarrow> date \<Rightarrow> bool" where
  "existed_at_date i d = list_ex (\<lambda>r. tr_date r \<le> d) (data i)"

text \<open>
  Modelled from the spec: \<^verbatim>\<open>get_first_date()\<close> and \<^verbatim>\<open>get_last_date()\<close> are the bounds
  of the record sequence (4.1). The spec does not say what they are for an instrument
  without records; the model has \<open>None\<close> there.
\<close>

definition get_first_date :: "instrument \<Rightarrow> date option" where
  "get_first_date i = (case data i of [] \<Rightarrow> None | r # _ \<Rightarrow> Some (tr_date r))"

definition get_last_date :: "instrument \<Rightarrow> date option" where
  "get_last_date i = (case rev (data i) of [] \<Rightarrow> None | r # _ \<Rightarrow> Some (tr_date r))"

text \<open>
  Modelled from the spec: \<^verbatim>\<open>get_day_index_or_last_before(date)\<close> resolves to the
  position of the record at \<^verbatim>\<open>date\<close> if present, otherwise to the position of the most
  recent record strictly before \<^verbatim>\<open>date\<close>, and fails with \<^verbatim>\<open>NotFound\<close> if there is no
  such record (4.1). The records are kept ascending by date (spec, 3), so the most recent
  of the earlier records is the last of them in the sequence.
\<close>

definition get_day_index_or_last_before :: "instrument \<Rightarrow> date \<Rightarrow> error + nat" where
  "get_day_index_or_last_before i d =
     (case filter (\<lambda>k. tr_date (data i ! k) = d) [0..<length (data i)] of
        k # _ \<Rightarrow> Inr k
      | [] \<Rightarrow>
          (case rev (filter (\<lambda>k. tr_date (data i ! k) < d) [0..<length (data i)]) of
             k # _ \<Rightarrow> Inr k
           | [] \<Rightarrow> Inl NotFound))"


section \<open>\<^verbatim>\<open>Order.fill\<close>\<close>


section \<open>\<^verbatim>\<open>Order.fill\<close> in the arithmetic of Python's \<^verbatim>\<open>float\<close>\<close>

text \<open>
  A \<^verbatim>\<open>float\<close> is a value of the binary64 format: a finite value, an infinity or a NaN. A
  finite value is the number it denotes; these are the numbers \<open>m * 2 ^ e\<close>
  with \<open>\<bar>m\<bar> < 2 ^ 53\<close> and \<open>- 1074 \<le> e \<le> 971\<close>. The two zeros of the format are
  not distinguished: no product or sum that is not a zero depends on the sign of a zero,
  and Python's \<^verbatim>\<open>==\<close> holds between them.
\<close>

datatype binary64 = Finite real | PInf | NInf | NaN

text \<open>The power of two with an integer exponent.\<close>

definition pow2 :: "int \<Rightarrow> real" where
  "pow2 e = (if 0 \<le> e then 2 ^ nat e else 1 / 2 ^ nat (- e))"

text \<open>The number of binary digits of a positive integer.\<close>

function bitlen :: "int \<Rightarrow> int" where
  "bitlen n = (if 0 < n then bitlen (n div 2) + 1 else 0)"
  by pat_completeness auto
termination
  by (relation "measure nat") auto

declare bitlen.simps [simp del]

text \<open>
  The exponent of the binade of a positive \<open>x\<close>: the \<open>e\<close> with
  \<open>2 ^ e \<le> x < 2 ^ (e + 1)\<close>. From 1 on it is read off the integer part of \<open>x\<close>,
  below 1 off the integer part of the reciprocal.
\<close>

definition binade :: "real \<Rightarrow> int" where
  "binade x = (if 1 \<le> x then bitlen \<lfloor>x\<rfloor> - 1 else - bitlen (\<lceil>1 / x\<rceil> - 1))"

text \<open>Rounding to the nearest integer, a tie to the even one.\<close>

definition round_half_even :: "real \<Rightarrow> int" where
  "round_half_even x =
     (let f = \<lfloor>x\<rfloor>; r = x - of_int f
      in if r < 1 / 2 then f
         else if 1 / 2 < r then f + 1
         else if even f then f else f + 1)"

text \<open>
  The rounding of the format, to nearest with ties to even: the value is rounded to a
  multiple of the spacing of its binade, \<open>2 ^ (e - 52)\<close>, where the binades below
  \<open>2 ^ - 1022\<close> share the spacing \<open>2 ^ - 1074\<close> (the subnormal numbers); a result of
  magnitude \<open>2 ^ 1024\<close> or more is an infinity.
\<close>

definition round_binary64 :: "real \<Rightarrow> binary64" where
  "round_binary64 x =
     (if x = 0 then Finite 0
      else
        (let e = max (binade \<bar>x\<bar>) (- 1022);
             ulp = pow2 (e - 52);
             y = of_int (round_half_even (x / ulp)) * ulp
         in if pow2 1024 \<le> \<bar>y\<bar> then (if 0 < x then PInf else NInf) else Finite y))"

text \<open>
  The conversion of an \<^verbatim>\<open>int\<close> operand of a mixed operation: correctly rounded, and
  \<^verbatim>\<open>OverflowError\<close> (int too large to convert to float) instead of an infinity.
\<close>

definition int_to_float :: "int \<Rightarrow> error + binary64" where
  "int_to_float n =
     (case round_binary64 (of_int n) of
        Finite y \<Rightarrow> Inr (Finite y)
      | _ \<Rightarrow> Inl OverflowError)"

text \<open>
  The product and the sum of two \<^verbatim>\<open>float\<close>s: the exact result, rounded. Neither raises;
  an overflow gives an infinity.
\<close>

fun float_mul :: "binary64 \<Rightarrow> binary64 \<Rightarrow> binary64" where
  "float_mul (Finite a) (Finite b) = round_binary64 (a * b)"
| "float_mul NaN _ = NaN"
| "float_mul _ NaN = NaN"
| "float_mul (Finite a) PInf = (if a = 0 then NaN else if 0 < a then PInf else NInf)"
| "float_mul (Finite a) NInf = (if a = 0 then NaN else if 0 < a then NInf else PInf)"
| "float_mul PInf (Finite b) = (if b = 0 then NaN else if 0 < b then PInf else NInf)"
| "float_mul NInf (Finite b) = (if b = 0 then NaN else if 0 < b then NInf else PInf)"
| "float_mul PInf PInf = PInf"
| "float_mul PInf NInf = NInf"
| "float_mul NInf PInf = NInf"
| "float_mul NInf NInf = PInf"

fun float_add :: "binary64 \<Rightarrow> binary64 \<Rightarrow> binary64" where
  "float_add (Finite a) (Finite b) = round_binary64 (a + b)"
| "float_add NaN _ = NaN"
| "float_add _ NaN = NaN"
| "float_add PInf NInf = NaN"
| "float_add NInf PInf = NaN"
| "float_add PInf _ = PInf"
| "float_add _ PInf = PInf"
| "float_add NInf _ = NInf"
| "float_add _ NInf = NInf"

text \<open>
  \<^verbatim>\<open>Order.fill\<close> again, now with what \<^verbatim>\<open>self.quantity * self.filled_price\<close> and
  \<^verbatim>\<open>self.cost + self.brokerage\<close> are for an \<^verbatim>\<open>int\<close> quantity and \<^verbatim>\<open>float\<close> amounts. The
  method assigns to the attributes of \<^verbatim>\<open>self\<close> one after the other, so the result is the
  order as the call leaves it together with \<open>Inr ()\<close>, or with the exception: the
  product raises before \<^verbatim>\<open>cost\<close> is assigned, when \<^verbatim>\<open>filled_price\<close>, \<^verbatim>\<open>filled\<close> and
  \<^verbatim>\<open>brokerage\<close> already are.
\<close>

definition fill_binary64 ::
  "(binary64 order \<Rightarrow> binary64) \<Rightarrow> binary64 \<Rightarrow> binary64 order \<Rightarrow> (error + unit) \<times> binary64 order"
where
  "fill_binary64 calculate_brokerage p self =
     (let self1 = self\<lparr>filled_price := Some p\<rparr>;
          self2 = self1\<lparr>filled := True\<rparr>;
          b = calculate_brokerage self2;
          self3 = self2\<lparr>brokerage := Some b\<rparr>
      in case int_to_float (quantity self3) of
           Inl e \<Rightarrow> (Inl e, self3)
         | Inr q \<Rightarrow>
             (let c = float_mul q p;
                  self4 = self3\<lparr>cost := Some c\<rparr>;
                  self5 = self4\<lparr>total_amount := Some (float_add c b)\<rparr>
              in (Inr (), self5)))"

section \<open>\<^verbatim>\<open>Share.get_value\<close>\<close>


section \<open>\<^verbatim>\<open>Strategy\<close>\<close>

text \<open>\<^verbatim>\<open>Strategy.__init__(self, money, portfolio, from_date, to_date)\<close>\<close>

definition Strategy :: "real \<Rightarrow> (string \<rightharpoonup> share) \<Rightarrow> date \<Rightarrow> date \<Rightarrow> strategy" where
  "Strategy m pf fd td =
     \<lparr>money = m, portfolio = pf, today = fd, from_date = fd, to_date = td\<rparr>"

text \<open>
  The body of the base \<^verbatim>\<open>execute\<close>: three assignments and no \<^verbatim>\<open>return\<close>, so the call
  returns Python's \<^verbatim>\<open>None\<close> (here \<open>None\<close>, where a list of orders would be \<open>Some\<close>).
\<close>

definition execute ::
  "date \<Rightarrow> (string \<rightharpoonup> share) \<Rightarrow> real \<Rightarrow> 'a strategy_scheme \<Rightarrow> real order list option \<times> 'a strategy_scheme"
where
  "execute today' portfolio' money' self =
     (let self1 = self\<lparr>today := today'\<rparr>;
          self2 = self1\<lparr>portfolio := portfolio'\<rparr>;
          self3 = self2\<lparr>money := money'\<rparr>
      in (None, self3))"

text \<open>
  \<^verbatim>\<open>Strategy.get_instrument\<close>: the deep copy, the test of \<^verbatim>\<open>existed_at_date\<close> with its
  \<^verbatim>\<open>ValueError\<close>, the resolution of the row and the assignment of the shortened array to
  the attribute \<^verbatim>\<open>data\<close> of the copy. The result is the reference that is returned (or
  the exception) and the store after the call.
\<close>

definition get_instrument ::
  "markets \<Rightarrow> 'a strategy_scheme \<Rightarrow> string \<Rightarrow> heap \<Rightarrow> (error + ref) \<times> heap"
where
  "get_instrument M self t h =
     (case markets_get_instrument M t of
        Inl e \<Rightarrow> (Inl e, h)
      | Inr shared \<Rightarrow>
          (let (instrument, h1) = deepcopy shared h in
           if \<not> existed_at_date (h1 ! instrument) (today self)
           then (Inl (ValueError t (today self)
                        (get_first_date (h1 ! instrument))
                        (get_last_date (h1 ! instrument))), h1)
           else
             (case get_day_index_or_last_before (h1 ! instrument) (today self) of
                Inl e \<Rightarrow> (Inl e, h1)
              | Inr row_index \<Rightarrow>
                  (Inr instrument,
                   h1[instrument := (h1 ! instrument)
                        \<lparr>data := np_delete (data (h1 ! instrument)) (row_index + 1)\<rparr>]))))"

text \<open>
  The loop of \<^verbatim>\<open>Strategy.get_instruments\<close> over the tickers: a view is appended to
  \<^verbatim>\<open>todays_instruments\<close>, a \<^verbatim>\<open>ValueError\<close> is caught and passed over, any other
  exception leaves the loop and the method.
\<close>

fun get_instruments_loop ::
  "markets \<Rightarrow> 'a strategy_scheme \<Rightarrow> string list \<Rightarrow> ref list \<Rightarrow> heap \<Rightarrow> (error + ref list) \<times> heap"
where
  "get_instruments_loop M self [] todays_instruments h = (Inr todays_instruments, h)"
| "get_instruments_loop M self (t # ts) todays_instruments h =
     (case get_instrument M self t h of
        (Inr i, h') \<Rightarrow> get_instruments_loop M self ts (todays_instruments @ [i]) h'
      | (Inl (ValueError _ _ _ _), h') \<Rightarrow> get_instruments_loop M self ts todays_instruments h'
      | (Inl e, h') \<Rightarrow> (Inl e, h'))"

definition get_instruments ::
  "markets \<Rightarrow> 'a strategy_scheme \<Rightarrow> heap \<Rightarrow> (error + ref list) \<times> heap"
where
  "get_instruments M self h = get_instruments_loop M self (markets_get_tickers M) [] h"

text \<open>
  What a generator yields is a Python object: the claim about
  \<^verbatim>\<open>Strategy.trading_days\<close> distinguishes a date from a sequence of dates.
\<close>

datatype yielded = A_date date | A_sequence "date list"

text \<open>
  \<^verbatim>\<open>Strategy.trading_days\<close> is a generator whose body is the single statement
  \<^verbatim>\<open>yield markets.trading_days(from_date, to_date)\<close>; the model is the list of the objects
  it yields.
\<close>

definition trading_days :: "markets \<Rightarrow> date \<Rightarrow> date \<Rightarrow> yielded list" where
  "trading_days M fd td = [A_sequence (markets_trading_days M fd td)]"

text \<open>\<^verbatim>\<open>Strategy.trading_days_ago\<close> passes \<^verbatim>\<open>self.today\<close> and \<^verbatim>\<open>days\<close> on.\<close>

definition trading_days_ago :: "markets \<Rightarrow> 'a strategy_scheme \<Rightarrow> int \<Rightarrow> error + date" where
  "trading_days_ago M self days = markets_trading_days_ago M (today self) days"

section \<open>Notions used in the statements\<close>

text \<open>
  The module \<^verbatim>\<open>markets\<close> holds an instrument for the ticker \<open>t\<close>: the lookup returns
  a reference to a live object, and that object is the instrument identified by \<open>t\<close>.
\<close>

definition holds_instrument :: "markets \<Rightarrow> heap \<Rightarrow> string \<Rightarrow> bool" where
  "holds_instrument M h t =
     (case markets_get_instrument M t of
        Inr a \<Rightarrow> a < length h \<and> instrument_ticker (h ! a) = t
      | Inl e \<Rightarrow> False)"

text \<open>The ticker passes the existence check of \<^verbatim>\<open>get_instrument\<close> at \<^verbatim>\<open>self.today\<close>.\<close>

definition exists_today :: "markets \<Rightarrow> 'a strategy_scheme \<Rightarrow> heap \<Rightarrow> string \<Rightarrow> bool" where
  "exists_today M self h t =
     (case markets_get_instrument M t of
        Inr a \<Rightarrow> existed_at_date (h ! a) (today self)
      | Inl e \<Rightarrow> False)"

text \<open>The object that a call returned, read in the store the call left behind.\<close>

definition returned_view :: "(error + ref) \<times> heap \<Rightarrow> instrument option" where
  "returned_view r = (case r of (Inr v, h') \<Rightarrow> Some (h' ! v) | (Inl e, h') \<Rightarrow> None)"

text \<open>The records of an instrument are strictly ascending by date (spec, 3).\<close>

definition ascending :: "instrument \<Rightarrow> bool" where
  "ascending i = sorted_wrt (<) (map tr_date (data i))"

section \<open>Example data\<close>

text \<open>
  The scenario of the spec (8): the instrument ACME has records on 2020-01-02 (close
  10.0) and 2020-01-06 (close 12.0). The ordinal of 2020-01-01 is 737425. A second
  instrument, NAS, has no closing prices, only the field \<^verbatim>\<open>'value'\<close>, and its first record
  on 2020-01-03.
\<close>

definition day :: "date \<Rightarrow> real option \<Rightarrow> real option \<Rightarrow> time_record" where
  "day d c v =
     \<lparr>tr_date = d, tr_open = 0, tr_high = 0, tr_low = 0, tr_close = c, tr_value = v,
      tr_volume = 0\<rparr>"

definition acme :: instrument where
  "acme = \<lparr>instrument_ticker = ''ACME'',
            data = [day 737426 (Some 10) None, day 737430 (Some 12) None]\<rparr>"

definition nas :: instrument where
  "nas = \<lparr>instrument_ticker = ''NAS'',
           data = [day 737427 None (Some 25), day 737430 None (Some 26)]\<rparr>"

definition example_heap :: heap where
  "example_heap = [acme, nas]"

text \<open>A market-data module that holds the two instruments and iterates the given tickers.\<close>

definition example_markets :: "string list \<Rightarrow> markets" where
  "example_markets tickers =
     \<lparr>markets_get_instrument =
        (\<lambda>t. if t = ''ACME'' then Inr 0 else if t = ''NAS'' then Inr 1 else Inl (KeyError t)),
      markets_get_tickers = tickers,
      markets_trading_days = (\<lambda>fd td. filter (\<lambda>d. fd \<le> d \<and> d \<le> td) [737426, 737427, 737430]),
      markets_trading_days_ago = (\<lambda>d n. Inl NotFound)\<rparr>"

text \<open>A strategy whose current day is \<open>d\<close>.\<close>

definition example_strategy :: "date \<Rightarrow> strategy" where
  "example_strategy d = (Strategy 1000 Map.empty 737425 737430)\<lparr>today := d\<rparr>"

text \<open>The same fee schedule for \<open>fill_binary64\<close>; 2.50 is a value of the format.\<close>

definition example_brokerage_binary64 :: "binary64 order \<Rightarrow> binary64" where
  "example_brokerage_binary64 x = Finite (5 / 2)"


section \<open>Auxiliary lemmas\<close>

subsection \<open>The array operation\<close>

lemma np_delete_take: "np_delete arr start = take start arr"
proof -
  have "np_delete arr start = nths arr {..<start}"
    by (simp add: np_delete_def nths_def case_prod_unfold not_le)
  then show ?thesis by simp
qed

subsection \<open>Positions selected by a predicate\<close>

lemma filter_upt_Cons:
  assumes "filter P [0..<n] = k # ks"
  shows "k < n \<and> P k \<and> (\<forall>j<k. \<not> P j)"
proof -
  have "k \<in> set (filter P [0..<n])" using assms by simp
  then have 1: "k < n \<and> P k" by simp
  have "sorted_wrt (<) (filter P [0..<n])" by (simp add: sorted_wrt_filter)
  then have 2: "\<forall>j\<in>set ks. k < j" using assms by simp
  have "\<forall>j<k. \<not> P j"
  proof (intro allI impI notI)
    fix j assume "j < k" "P j"
    then have "j \<in> set (filter P [0..<n])" using 1 by simp
    then have "j = k \<or> j \<in> set ks" using assms by simp
    then show False using 2 \<open>j < k\<close> by auto
  qed
  then show ?thesis using 1 by simp
qed

lemma filter_upt_Nil: "filter P [0..<n] = [] \<Longrightarrow> j < n \<Longrightarrow> \<not> P j"
  by (auto simp: filter_empty_conv)

lemma rev_filter_upt_Cons:
  assumes "rev (filter P [0..<n]) = k # ks"
  shows "k < n \<and> P k \<and> (\<forall>j<n. P j \<longrightarrow> j \<le> k)"
proof -
  have eq: "filter P [0..<n] = rev ks @ [k]" using assms by (metis rev.simps(2) rev_rev_ident)
  have "k \<in> set (filter P [0..<n])" using eq by simp
  then have 1: "k < n \<and> P k" by simp
  have "sorted_wrt (<) (filter P [0..<n])" by (simp add: sorted_wrt_filter)
  then have 2: "\<forall>j\<in>set ks. j < k" using eq by (simp add: sorted_wrt_append)
  have "\<forall>j<n. P j \<longrightarrow> j \<le> k"
  proof (intro allI impI)
    fix j assume "j < n" "P j"
    then have "j \<in> set (filter P [0..<n])" by simp
    then have "j = k \<or> j \<in> set ks" using eq by auto
    then show "j \<le> k" using 2 by auto
  qed
  then show ?thesis using 1 by simp
qed

subsection \<open>The resolution of a day\<close>

lemma existed_at_date_iff: "existed_at_date i d \<longleftrightarrow> (\<exists>k<length (data i). tr_date (data i ! k) \<le> d)"
  unfolding existed_at_date_def list_ex_iff
  by (metis in_set_conv_nth)

lemma index_exists:
  assumes "existed_at_date i d"
  shows "\<exists>k. get_day_index_or_last_before i d = Inr k"
proof -
  obtain j where j: "j < length (data i)" "tr_date (data i ! j) \<le> d"
    using assms by (auto simp: existed_at_date_iff)
  show ?thesis
  proof (cases "filter (\<lambda>k. tr_date (data i ! k) = d) [0..<length (data i)]")
    case (Cons k ks)
    then show ?thesis by (simp add: get_day_index_or_last_before_def)
  next
    case Nil
    then have "tr_date (data i ! j) \<noteq> d" using j filter_upt_Nil[OF Nil] by blast
    then have "tr_date (data i ! j) < d" using j by simp
    then have "j \<in> set (filter (\<lambda>k. tr_date (data i ! k) < d) [0..<length (data i)])"
      using j by simp
    then have "filter (\<lambda>k. tr_date (data i ! k) < d) [0..<length (data i)] \<noteq> []"
      by (metis empty_iff list.set(1))
    then have "rev (filter (\<lambda>k. tr_date (data i ! k) < d) [0..<length (data i)]) \<noteq> []"
      by simp
    then show ?thesis using Nil
      by (auto simp: get_day_index_or_last_before_def split: list.splits)
  qed
qed

lemma index_sound:
  assumes "get_day_index_or_last_before i d = Inr k"
  shows "k < length (data i) \<and> tr_date (data i ! k) \<le> d"
proof (cases "filter (\<lambda>k. tr_date (data i ! k) = d) [0..<length (data i)]")
  case (Cons k' ks)
  then have "k' = k" using assms by (simp add: get_day_index_or_last_before_def)
  then show ?thesis using filter_upt_Cons[OF Cons] by simp
next
  case Nil
  then obtain ks where r: "rev (filter (\<lambda>k. tr_date (data i ! k) < d) [0..<length (data i)]) = k # ks"
    using assms by (auto simp: get_day_index_or_last_before_def split: list.splits)
  show ?thesis using rev_filter_upt_Cons[OF r] by simp
qed

lemma index_not_existed:
  assumes "\<not> existed_at_date i d"
  shows "get_day_index_or_last_before i d = Inl NotFound"
proof (cases "get_day_index_or_last_before i d")
  case (Inr k)
  then show ?thesis using index_sound[OF Inr] assms by (auto simp: existed_at_date_iff)
next
  case (Inl e)
  then show ?thesis
    by (auto simp: get_day_index_or_last_before_def split: list.splits)
qed

lemma index_later_records:
  assumes s: "sorted_wrt (<) (map tr_date (data i))"
    and r: "get_day_index_or_last_before i d = Inr k"
    and j: "k < j" "j < length (data i)"
  shows "d < tr_date (data i ! j)"
proof (cases "filter (\<lambda>k. tr_date (data i ! k) = d) [0..<length (data i)]")
  case (Cons k' ks)
  then have "k' = k" using r by (simp add: get_day_index_or_last_before_def)
  then have "tr_date (data i ! k) = d" using filter_upt_Cons[OF Cons] by simp
  moreover have "tr_date (data i ! k) < tr_date (data i ! j)"
    using s j by (simp add: sorted_wrt_iff_nth_less)
  ultimately show ?thesis by simp
next
  case Nil
  then obtain ks where rv: "rev (filter (\<lambda>k. tr_date (data i ! k) < d) [0..<length (data i)]) = k # ks"
    using r by (auto simp: get_day_index_or_last_before_def split: list.splits)
  have "\<not> tr_date (data i ! j) < d" using rev_filter_upt_Cons[OF rv] j by auto
  moreover have "tr_date (data i ! j) \<noteq> d" using filter_upt_Nil[OF Nil] j by blast
  ultimately show ?thesis by simp
qed

lemma take_index_eq_filter:
  assumes s: "sorted_wrt (<) (map tr_date (data i))"
    and r: "get_day_index_or_last_before i d = Inr k"
  shows "take (Suc k) (data i) = filter (\<lambda>r. tr_date r \<le> d) (data i)"
proof -
  have k: "k < length (data i)" "tr_date (data i ! k) \<le> d" using index_sound[OF r] by simp_all
  have split: "data i = take (Suc k) (data i) @ drop (Suc k) (data i)" by simp
  have a: "\<forall>x\<in>set (take (Suc k) (data i)). tr_date x \<le> d"
  proof
    fix x assume "x \<in> set (take (Suc k) (data i))"
    then obtain m where m: "m < Suc k" "m < length (data i)" "x = data i ! m"
      by (auto simp: in_set_conv_nth)
    have "tr_date (data i ! m) \<le> tr_date (data i ! k)"
    proof (cases "m = k")
      case True then show ?thesis by simp
    next
      case False
      then have "m < k" using m by simp
      then show ?thesis using s k by (simp add: sorted_wrt_iff_nth_less order_less_imp_le)
    qed
    then show "tr_date x \<le> d" using k m by simp
  qed
  have b: "\<forall>x\<in>set (drop (Suc k) (data i)). \<not> tr_date x \<le> d"
  proof
    fix x assume "x \<in> set (drop (Suc k) (data i))"
    then obtain m where m: "m < length (data i) - Suc k" "x = drop (Suc k) (data i) ! m"
      by (auto simp: in_set_conv_nth)
    then have "x = data i ! (Suc k + m)" using k by simp
    moreover have "d < tr_date (data i ! (Suc k + m))"
      using index_later_records[OF s r, of "Suc k + m"] m by simp
    ultimately show "\<not> tr_date x \<le> d" by simp
  qed
  have "filter (\<lambda>r. tr_date r \<le> d) (data i)
      = filter (\<lambda>r. tr_date r \<le> d) (take (Suc k) (data i)) @ filter (\<lambda>r. tr_date r \<le> d) (drop (Suc k) (data i))"
    by (metis split filter_append)
  also have "\<dots> = take (Suc k) (data i)"
    using a b by (simp add: filter_id_conv filter_empty_conv)
  finally show ?thesis by simp
qed

subsection \<open>One call of \<^verbatim>\<open>get_instrument\<close>\<close>

lemma get_instrument_held:
  assumes "markets_get_instrument M t = Inr a"
  shows "get_instrument M s t h =
     (if \<not> existed_at_date (h ! a) (today s)
      then (Inl (ValueError t (today s) (get_first_date (h ! a)) (get_last_date (h ! a))), h @ [h ! a])
      else (case get_day_index_or_last_before (h ! a) (today s) of
              Inl e \<Rightarrow> (Inl e, h @ [h ! a])
            | Inr k \<Rightarrow> (Inr (length h), h @ [(h ! a)\<lparr>data := take (Suc k) (data (h ! a))\<rparr>])))"
  using assms
  by (simp add: get_instrument_def deepcopy_def np_delete_take split: sum.splits)

lemma get_instrument_extends: "\<exists>ys. snd (get_instrument M s t h) = h @ ys"
proof (cases "markets_get_instrument M t")
  case (Inl e)
  then show ?thesis by (simp add: get_instrument_def)
next
  case (Inr a)
  show ?thesis unfolding get_instrument_held[OF Inr] by (simp split: sum.splits)
qed

lemma get_instrument_fresh:
  assumes "get_instrument M s t h = (Inr v, h')"
  shows "v = length h \<and> length h' = Suc (length h)"
proof (cases "markets_get_instrument M t")
  case (Inl e)
  then show ?thesis using assms by (simp add: get_instrument_def)
next
  case (Inr a)
  show ?thesis using assms unfolding get_instrument_held[OF Inr]
    by (auto split: sum.splits if_splits)
qed

lemma returned_view_held:
  assumes "markets_get_instrument M t = Inr a"
  shows "returned_view (get_instrument M s t h) =
     (if existed_at_date (h ! a) (today s)
      then (case get_day_index_or_last_before (h ! a) (today s) of
              Inl e \<Rightarrow> None
            | Inr k \<Rightarrow> Some ((h ! a)\<lparr>data := take (Suc k) (data (h ! a))\<rparr>))
      else None)"
  unfolding get_instrument_held[OF assms]
  by (simp add: returned_view_def split: sum.splits)

lemma holds_instrument_append:
  "holds_instrument M h t \<Longrightarrow> holds_instrument M (h @ ys) t"
  by (auto simp: holds_instrument_def nth_append split: sum.splits)

lemma exists_today_append:
  "holds_instrument M h t \<Longrightarrow> exists_today M s (h @ ys) t = exists_today M s h t"
  by (auto simp: holds_instrument_def exists_today_def nth_append split: sum.splits)

lemma returned_view_append:
  assumes "holds_instrument M h t"
  shows "returned_view (get_instrument M s t (h @ ys)) = returned_view (get_instrument M s t h)"
proof -
  obtain a where a: "markets_get_instrument M t = Inr a" "a < length h"
    using assms by (auto simp: holds_instrument_def split: sum.splits)
  then have "(h @ ys) ! a = h ! a" by (simp add: nth_append)
  then show ?thesis by (simp add: returned_view_held[OF a(1)] split: sum.splits)
qed

subsection \<open>The loop of \<^verbatim>\<open>get_instruments\<close>\<close>

lemma get_instruments_loop_result:
  assumes "\<forall>t\<in>set ts. holds_instrument M h t"
  shows "\<exists>vs ys. get_instruments_loop M s ts acc h = (Inr (acc @ vs), h @ ys)
           \<and> (\<forall>v\<in>set vs. length h \<le> v \<and> v < length (h @ ys))
           \<and> map (\<lambda>v. Some ((h @ ys) ! v)) vs
               = map (\<lambda>t. returned_view (get_instrument M s t h)) (filter (exists_today M s h) ts)
           \<and> map (\<lambda>v. instrument_ticker ((h @ ys) ! v)) vs = filter (exists_today M s h) ts"
  using assms
proof (induction ts arbitrary: acc h)
  case Nil
  then show ?case by simp
next
  case (Cons t ts)
  from Cons.prems obtain a where a: "markets_get_instrument M t = Inr a" "a < length h"
      "instrument_ticker (h ! a) = t"
    by (auto simp: holds_instrument_def split: sum.splits)
  have ex: "exists_today M s h t = existed_at_date (h ! a) (today s)"
    by (simp add: exists_today_def a)
  show ?case
  proof (cases "existed_at_date (h ! a) (today s)")
    case False
    let ?h1 = "h @ [h ! a]"
    have g: "get_instrument M s t h
        = (Inl (ValueError t (today s) (get_first_date (h ! a)) (get_last_date (h ! a))), ?h1)"
      using False by (simp add: get_instrument_held[OF a(1)])
    have h1: "\<forall>t\<in>set ts. holds_instrument M ?h1 t"
      using Cons.prems by (simp add: holds_instrument_append)
    from Cons.IH[OF h1, of acc] obtain vs ys where
      r: "get_instruments_loop M s ts acc ?h1 = (Inr (acc @ vs), ?h1 @ ys)"
      and f: "\<forall>v\<in>set vs. length ?h1 \<le> v \<and> v < length (?h1 @ ys)"
      and m: "map (\<lambda>v. Some ((?h1 @ ys) ! v)) vs
               = map (\<lambda>t. returned_view (get_instrument M s t ?h1)) (filter (exists_today M s ?h1) ts)"
      and k: "map (\<lambda>v. instrument_ticker ((?h1 @ ys) ! v)) vs = filter (exists_today M s ?h1) ts"
      by blast
    have fe: "filter (exists_today M s ?h1) ts = filter (exists_today M s h) ts"
      using Cons.prems by (intro filter_cong) (simp_all add: exists_today_append)
    have me: "map (\<lambda>t. returned_view (get_instrument M s t ?h1)) (filter (exists_today M s h) ts)
            = map (\<lambda>t. returned_view (get_instrument M s t h)) (filter (exists_today M s h) ts)"
      using Cons.prems by (intro map_cong) (simp_all add: returned_view_append)
    have "get_instruments_loop M s (t # ts) acc h = (Inr (acc @ vs), h @ ([h ! a] @ ys))"
      using g r by simp
    moreover have "\<forall>v\<in>set vs. length h \<le> v \<and> v < length (h @ ([h ! a] @ ys))"
      using f by auto
    moreover have "map (\<lambda>v. Some ((h @ ([h ! a] @ ys)) ! v)) vs
        = map (\<lambda>t. returned_view (get_instrument M s t h)) (filter (exists_today M s h) (t # ts))"
      using m fe me False ex by simp
    moreover have "map (\<lambda>v. instrument_ticker ((h @ ([h ! a] @ ys)) ! v)) vs
        = filter (exists_today M s h) (t # ts)"
      using k fe False ex by simp
    ultimately show ?thesis by blast
  next
    case True
    then obtain j where j: "get_day_index_or_last_before (h ! a) (today s) = Inr j"
      using index_exists by blast
    let ?w = "(h ! a)\<lparr>data := take (Suc j) (data (h ! a))\<rparr>"
    let ?h1 = "h @ [?w]"
    have g: "get_instrument M s t h = (Inr (length h), ?h1)"
      using True j by (simp add: get_instrument_held[OF a(1)])
    have h1: "\<forall>t\<in>set ts. holds_instrument M ?h1 t"
      using Cons.prems by (simp add: holds_instrument_append)
    from Cons.IH[OF h1, of "acc @ [length h]"] obtain vs ys where
      r: "get_instruments_loop M s ts (acc @ [length h]) ?h1 = (Inr ((acc @ [length h]) @ vs), ?h1 @ ys)"
      and f: "\<forall>v\<in>set vs. length ?h1 \<le> v \<and> v < length (?h1 @ ys)"
      and m: "map (\<lambda>v. Some ((?h1 @ ys) ! v)) vs
               = map (\<lambda>t. returned_view (get_instrument M s t ?h1)) (filter (exists_today M s ?h1) ts)"
      and k: "map (\<lambda>v. instrument_ticker ((?h1 @ ys) ! v)) vs = filter (exists_today M s ?h1) ts"
      by blast
    have fe: "filter (exists_today M s ?h1) ts = filter (exists_today M s h) ts"
      using Cons.prems by (intro filter_cong) (simp_all add: exists_today_append)
    have me: "map (\<lambda>t. returned_view (get_instrument M s t ?h1)) (filter (exists_today M s h) ts)
            = map (\<lambda>t. returned_view (get_instrument M s t h)) (filter (exists_today M s h) ts)"
      using Cons.prems by (intro map_cong) (simp_all add: returned_view_append)
    have here: "(h @ ([?w] @ ys)) ! length h = ?w" by simp
    have rv: "returned_view (get_instrument M s t h) = Some ?w"
      by (simp add: g returned_view_def)
    have "get_instruments_loop M s (t # ts) acc h = (Inr (acc @ (length h # vs)), h @ ([?w] @ ys))"
      using g r by simp
    moreover have "\<forall>v\<in>set (length h # vs). length h \<le> v \<and> v < length (h @ ([?w] @ ys))"
      using f by auto
    moreover have "map (\<lambda>v. Some ((h @ ([?w] @ ys)) ! v)) (length h # vs)
        = map (\<lambda>t. returned_view (get_instrument M s t h)) (filter (exists_today M s h) (t # ts))"
      using m fe me True ex here rv by simp
    moreover have "map (\<lambda>v. instrument_ticker ((h @ ([?w] @ ys)) ! v)) (length h # vs)
        = filter (exists_today M s h) (t # ts)"
      using k fe True ex here a by simp
    ultimately show ?thesis by blast
  qed
qed

subsection \<open>Unfolding the example data\<close>

lemmas ex_defs = example_markets_def example_heap_def example_strategy_def Strategy_def acme_def nas_def day_def

subsection \<open>The arithmetic of the binary64 format\<close>

text \<open>
  The rounding is what the format prescribes: the binade is the right one, an integer of
  magnitude up to \<open>2 ^ 53\<close> is converted exactly, a value of magnitude \<open>2 ^ 1024\<close> or
  more overflows, and a finite result in the normal range is within the relative error
  \<open>2 ^ - 53\<close> of the exact value.
\<close>

lemma pow2_pos: "0 < pow2 e"
  by (simp add: pow2_def)

lemma pow2_add: "pow2 (a + b) = pow2 a * pow2 b"
proof -
  have "pow2 e = 2 powi e" for e
    by (simp add: pow2_def power_int_def field_simps)
  then show ?thesis by (simp add: power_int_add)
qed

lemma pow2_nat: "0 \<le> e \<Longrightarrow> pow2 e = 2 ^ nat e"
  by (simp add: pow2_def)

lemma pow2_mono: "a \<le> b \<Longrightarrow> pow2 a \<le> pow2 b"
proof -
  assume "a \<le> b"
  then obtain k where k: "b = a + k" "0 \<le> k" by (metis add.commute diff_ge_0_iff_ge diff_add_cancel)
  have "1 \<le> pow2 k" using k by (simp add: pow2_nat)
  then show ?thesis using k pow2_pos[of a] by (simp add: pow2_add)
qed

lemma pow2_less_imp: "pow2 a < pow2 b \<Longrightarrow> a < b"
  using pow2_mono[of b a] by (cases "a < b") auto

lemma bitlen_nonneg: "0 \<le> bitlen n"
  by (induction n rule: bitlen.induct) (subst bitlen.simps, simp)

lemma bitlen_bounds:
  "0 < n \<Longrightarrow> 2 ^ nat (bitlen n - 1) \<le> n \<and> n < 2 ^ nat (bitlen n)"
proof (induction n rule: bitlen.induct)
  case (1 n)
  show ?case
  proof (cases "n = 1")
    case True
    have "bitlen 1 = 1" by (simp add: bitlen.simps)
    then show ?thesis using True by simp
  next
    case False
    with 1(2) have h: "0 < n div 2" by simp
    from 1(1)[OF 1(2) h] have ih: "2 ^ nat (bitlen (n div 2) - 1) \<le> n div 2"
      "n div 2 < 2 ^ nat (bitlen (n div 2))" by simp_all
    have b: "bitlen n = bitlen (n div 2) + 1" using 1(2) by (subst bitlen.simps) simp
    have pos: "1 \<le> bitlen (n div 2)"
      using h bitlen_nonneg[of "n div 2 div 2"] by (subst bitlen.simps) simp
    have e1: "nat (bitlen n - 1) = Suc (nat (bitlen (n div 2) - 1))" using b pos by simp
    have e2: "nat (bitlen n) = Suc (nat (bitlen (n div 2)))" using b pos by simp
    have "2 * 2 ^ nat (bitlen (n div 2) - 1) \<le> n" using ih(1) by linarith
    moreover have "n < 2 * 2 ^ nat (bitlen (n div 2))" using ih(2) by linarith
    ultimately show ?thesis by (simp add: e1 e2)
  qed
qed

lemma binade_bounds:
  assumes "0 < x"
  shows "pow2 (binade x) \<le> x \<and> x < pow2 (binade x + 1)"
proof (cases "1 \<le> x")
  case True
  then have f: "0 < \<lfloor>x\<rfloor>" by linarith
  let ?b = "bitlen \<lfloor>x\<rfloor>"
  from bitlen_bounds[OF f] have lo: "2 ^ nat (?b - 1) \<le> \<lfloor>x\<rfloor>" and hi: "\<lfloor>x\<rfloor> < 2 ^ nat ?b"
    by simp_all
  have b1: "1 \<le> ?b" using f bitlen_nonneg[of "\<lfloor>x\<rfloor> div 2"] by (subst bitlen.simps) simp
  have "(of_int (2 ^ nat (?b - 1)) :: real) \<le> of_int \<lfloor>x\<rfloor>" using lo by (simp only: of_int_le_iff)
  then have 1: "(2 ^ nat (?b - 1) :: real) \<le> x" by (simp add: le_floor_iff)
  have "\<lfloor>x\<rfloor> + 1 \<le> 2 ^ nat ?b" using hi by simp
  then have "(of_int (\<lfloor>x\<rfloor> + 1) :: real) \<le> of_int (2 ^ nat ?b)" by (simp only: of_int_le_iff)
  moreover have "x < of_int (\<lfloor>x\<rfloor> + 1)" by linarith
  ultimately have "x < (of_int (2 ^ nat ?b) :: real)" by (rule order_less_le_trans[rotated])
  then have 2: "x < (2 ^ nat ?b :: real)" by simp
  show ?thesis using True 1 2 b1 by (simp add: binade_def pow2_nat)
next
  case False
  then have x1: "x < 1" by simp
  let ?c = "\<lceil>1 / x\<rceil>"
  let ?b = "bitlen (?c - 1)"
  have y: "1 < 1 / x" using assms x1 by simp
  then have c: "0 < ?c - 1" by linarith
  from bitlen_bounds[OF c] have lo: "2 ^ nat (?b - 1) \<le> ?c - 1" and hi: "?c - 1 < 2 ^ nat ?b"
    by simp_all
  have b1: "1 \<le> ?b" using c bitlen_nonneg[of "(?c - 1) div 2"] by (subst bitlen.simps) simp
  have "?c \<le> 2 ^ nat ?b" using hi by simp
  then have "(of_int ?c :: real) \<le> of_int (2 ^ nat ?b)" by (simp only: of_int_le_iff)
  moreover have "1 / x \<le> of_int ?c" by (rule le_of_int_ceiling)
  ultimately have "1 / x \<le> (of_int (2 ^ nat ?b) :: real)" by (rule order_trans[rotated])
  then have "1 / x \<le> (2 ^ nat ?b :: real)" by simp
  then have 1: "1 / 2 ^ nat ?b \<le> x" using assms by (simp add: field_simps)
  have "(of_int (2 ^ nat (?b - 1)) :: real) \<le> of_int (?c - 1)" using lo by (simp only: of_int_le_iff)
  moreover have "(of_int (?c - 1) :: real) < 1 / x"
    using ceiling_correct[of "1 / x"] by simp
  ultimately have "(of_int (2 ^ nat (?b - 1)) :: real) < 1 / x" by (rule order_le_less_trans)
  then have "(2 ^ nat (?b - 1) :: real) < 1 / x" by simp
  then have 2: "x < 1 / 2 ^ nat (?b - 1)" using assms by (simp add: field_simps)
  have p1: "pow2 (- ?b) = 1 / 2 ^ nat ?b" using b1 by (simp add: pow2_def)
  have p2: "pow2 (- ?b + 1) = 1 / 2 ^ nat (?b - 1)"
  proof (cases "?b = 1")
    case True then show ?thesis by (simp add: pow2_def)
  next
    case False
    then have "- ?b + 1 < 0" using b1 by simp
    moreover have "nat (- (- ?b + 1)) = nat (?b - 1)" by simp
    ultimately show ?thesis by (simp add: pow2_def)
  qed
  show ?thesis using False 1 2 p1 p2 by (simp add: binade_def)
qed

lemma binade_ge:
  assumes "pow2 k \<le> x"
  shows "k \<le> binade x"
proof -
  have x: "0 < x" using assms pow2_pos[of k] by linarith
  have "pow2 k < pow2 (binade x + 1)" using binade_bounds[OF x] assms by linarith
  then have "k < binade x + 1" by (rule pow2_less_imp)
  then show ?thesis by simp
qed

lemma binade_less:
  assumes "0 < x" and "x < pow2 k"
  shows "binade x < k"
proof -
  have "pow2 (binade x) < pow2 k" using binade_bounds[OF assms(1)] assms(2) by linarith
  then show ?thesis by (rule pow2_less_imp)
qed

lemma round_half_even_error: "\<bar>of_int (round_half_even x) - x\<bar> \<le> 1 / 2"
proof -
  have "of_int \<lfloor>x\<rfloor> \<le> x" "x < of_int \<lfloor>x\<rfloor> + 1" by linarith+
  then show ?thesis by (auto simp: round_half_even_def Let_def)
qed

lemma round_half_even_of_int: "round_half_even (of_int n) = n"
  by (simp add: round_half_even_def)

lemma round_half_even_ge: "of_int k \<le> x \<Longrightarrow> k \<le> round_half_even x"
proof -
  assume "of_int k \<le> x"
  then have "k \<le> \<lfloor>x\<rfloor>" by (simp add: le_floor_iff)
  then show ?thesis by (auto simp: round_half_even_def Let_def)
qed

lemma round_half_even_le: "x \<le> of_int k \<Longrightarrow> round_half_even x \<le> k"
proof -
  assume a: "x \<le> of_int k"
  show ?thesis
  proof (cases "x = of_int k")
    case True
    then show ?thesis by (simp add: round_half_even_of_int)
  next
    case False
    then have "x < of_int k" using a by simp
    then have "\<lfloor>x\<rfloor> < k" by (simp add: floor_less_iff)
    then show ?thesis by (auto simp: round_half_even_def Let_def)
  qed
qed

lemma round_binary64_error:
  assumes r: "round_binary64 x = Finite y" and n: "pow2 (- 1022) \<le> \<bar>x\<bar>"
  shows "\<bar>y - x\<bar> \<le> \<bar>x\<bar> / 2 ^ 53"
proof -
  have x0: "x \<noteq> 0" using n pow2_pos[of "- 1022"] by auto
  let ?b = "binade \<bar>x\<bar>"
  have b: "- 1022 \<le> ?b" using n by (rule binade_ge)
  then have e: "max ?b (- 1022) = ?b" by simp
  let ?u = "pow2 (?b - 52)"
  have u: "0 < ?u" by (rule pow2_pos)
  have y: "y = of_int (round_half_even (x / ?u)) * ?u"
    using r x0 e by (simp add: round_binary64_def Let_def split: if_splits)
  have "\<bar>y - x\<bar> = \<bar>of_int (round_half_even (x / ?u)) - x / ?u\<bar> * ?u"
  proof -
    have "y - x = (of_int (round_half_even (x / ?u)) - x / ?u) * ?u"
      using u by (simp add: y field_simps)
    then show ?thesis using u by (simp add: abs_mult)
  qed
  also have "\<dots> \<le> (1 / 2) * ?u"
    using round_half_even_error[of "x / ?u"] u by (intro mult_right_mono) simp_all
  also have "?u = pow2 ?b * pow2 (- 52)"
    using pow2_add[of ?b "- 52"] by simp
  also have "(1 / 2) * (pow2 ?b * pow2 (- 52)) = pow2 ?b / 2 ^ 53"
    by (simp add: pow2_def)
  also have "\<dots> \<le> \<bar>x\<bar> / 2 ^ 53"
    using binade_bounds[of "\<bar>x\<bar>"] x0 by (simp add: divide_right_mono)
  finally show ?thesis .
qed

lemma round_binary64_of_int:
  assumes "\<bar>n\<bar> \<le> 2 ^ 53"
  shows "round_binary64 (of_int n) = Finite (of_int n)"
proof (cases "n = 0")
  case True
  then show ?thesis by (simp add: round_binary64_def)
next
  case False
  let ?x = "of_int n :: real"
  let ?b = "binade \<bar>?x\<bar>"
  have x1: "1 \<le> \<bar>?x\<bar>"
  proof -
    have "1 \<le> \<bar>n\<bar>" using False by simp
    then have "(of_int 1 :: real) \<le> of_int \<bar>n\<bar>" by (simp only: of_int_le_iff)
    then show ?thesis by simp
  qed
  have xu: "\<bar>?x\<bar> \<le> 2 ^ 53"
  proof -
    have "(of_int \<bar>n\<bar> :: real) \<le> of_int (2 ^ 53)" using assms by (simp only: of_int_le_iff)
    then show ?thesis by simp
  qed
  have b0: "0 \<le> ?b" using x1 binade_ge[of 0 "\<bar>?x\<bar>"] by (simp add: pow2_def)
  have b53: "?b \<le> 53"
  proof -
    have "\<bar>?x\<bar> < pow2 54" using xu by (simp add: pow2_def)
    then have "?b < 54" using x1 by (intro binade_less) simp_all
    then show ?thesis by simp
  qed
  have e: "max ?b (- 1022) = ?b" using b0 by simp
  let ?u = "pow2 (?b - 52)"
  have u: "0 < ?u" by (rule pow2_pos)
  have "\<exists>k. ?x / ?u = of_int k"
  proof (cases "?b = 53")
    case True
    then have "pow2 53 \<le> \<bar>?x\<bar>" using binade_bounds[of "\<bar>?x\<bar>"] x1 by simp
    then have "\<bar>?x\<bar> = 2 ^ 53" using xu by (simp add: pow2_def)
    then have "(of_int \<bar>n\<bar> :: real) = of_int (2 ^ 53)" by simp
    then have "\<bar>n\<bar> = 2 ^ 53" by (simp only: of_int_eq_iff)
    then have "n = 2 ^ 53 \<or> n = - (2 ^ 53)" by linarith
    then show ?thesis
    proof
      assume "n = 2 ^ 53"
      then have "?x / ?u = of_int (2 ^ 52)" using True by (simp add: pow2_def)
      then show ?thesis by blast
    next
      assume "n = - (2 ^ 53)"
      then have "?x / ?u = of_int (- (2 ^ 52))" using True by (simp add: pow2_def)
      then show ?thesis by blast
    qed
  next
    case False
    then have le: "?b \<le> 52" using b53 by simp
    have "pow2 (?b - 52) * pow2 (52 - ?b) = 1"
      using pow2_add[of "?b - 52" "52 - ?b"] by (simp add: pow2_def)
    then have "?x / ?u = ?x * pow2 (52 - ?b)" using u by (simp add: field_simps)
    also have "pow2 (52 - ?b) = of_int (2 ^ nat (52 - ?b))" using le by (simp add: pow2_def)
    also have "?x * of_int (2 ^ nat (52 - ?b)) = of_int (n * 2 ^ nat (52 - ?b))" by simp
    finally show ?thesis by blast
  qed
  then obtain k where k: "?x / ?u = of_int k" by blast
  have y: "of_int (round_half_even (?x / ?u)) * ?u = ?x"
    using u by (simp add: k round_half_even_of_int) (metis k nonzero_divide_eq_eq less_numeral_extra(3))
  have "\<bar>?x\<bar> < pow2 1024"
  proof -
    have "(2::real) ^ 53 < 2 ^ 1024" by (rule power_strict_increasing) simp_all
    then show ?thesis using xu by (simp add: pow2_def)
  qed
  then show ?thesis
    using False e y by (simp add: round_binary64_def Let_def)
qed

lemma round_binary64_overflow:
  assumes "pow2 1024 \<le> \<bar>x\<bar>"
  shows "round_binary64 x = (if 0 < x then PInf else NInf)"
proof -
  have x0: "x \<noteq> 0" using assms pow2_pos[of 1024] by auto
  let ?b = "binade \<bar>x\<bar>"
  have b: "1024 \<le> ?b" using assms by (rule binade_ge)
  then have e: "max ?b (- 1022) = ?b" by simp
  let ?u = "pow2 (?b - 52)"
  have u: "0 < ?u" by (rule pow2_pos)
  have pu: "pow2 ?b = 2 ^ 52 * ?u"
    using pow2_add[of 52 "?b - 52"] by (simp add: pow2_def)
  have lo: "pow2 ?b \<le> \<bar>x\<bar>" using binade_bounds[of "\<bar>x\<bar>"] x0 by simp
  let ?m = "round_half_even (x / ?u)"
  have big: "pow2 1024 \<le> \<bar>of_int ?m * ?u\<bar>"
  proof (cases "0 < x")
    case True
    then have "2 ^ 52 * ?u \<le> x" using lo pu by simp
    then have "of_int (2 ^ 52) \<le> x / ?u" using u by (simp add: field_simps)
    then have "2 ^ 52 \<le> ?m" by (rule round_half_even_ge)
    then have "(of_int (2 ^ 52) :: real) \<le> of_int ?m" by (simp only: of_int_le_iff)
    then have "of_int (2 ^ 52) * ?u \<le> of_int ?m * ?u" using u by (intro mult_right_mono) simp_all
    then have "2 ^ 52 * ?u \<le> of_int ?m * ?u" by simp
    then have "pow2 ?b \<le> \<bar>of_int ?m * ?u\<bar>" using pu by linarith
    moreover have "pow2 1024 \<le> pow2 ?b" using b by (rule pow2_mono)
    ultimately show ?thesis by linarith
  next
    case False
    then have "x \<le> - (2 ^ 52 * ?u)" using lo pu x0 by simp
    then have "x / ?u \<le> of_int (- (2 ^ 52))" using u by (simp add: field_simps)
    then have "?m \<le> - (2 ^ 52)" by (rule round_half_even_le)
    then have "(of_int ?m :: real) \<le> of_int (- (2 ^ 52))" by (simp only: of_int_le_iff)
    then have "of_int ?m * ?u \<le> of_int (- (2 ^ 52)) * ?u" using u by (intro mult_right_mono) simp_all
    then have "of_int ?m * ?u \<le> - (2 ^ 52 * ?u)" by simp
    then have "pow2 ?b \<le> \<bar>of_int ?m * ?u\<bar>" using pu by linarith
    moreover have "pow2 1024 \<le> pow2 ?b" using b by (rule pow2_mono)
    ultimately show ?thesis by linarith
  qed
  show ?thesis using x0 e big by (simp add: round_binary64_def Let_def)
qed

lemma int_to_float_exact: "\<bar>n\<bar> \<le> 2 ^ 53 \<Longrightarrow> int_to_float n = Inr (Finite (of_int n))"
  by (simp add: int_to_float_def round_binary64_of_int)

lemma int_to_float_overflow:
  assumes "2 ^ 1024 \<le> \<bar>n\<bar>"
  shows "int_to_float n = Inl OverflowError"
proof -
  have "(of_int (2 ^ 1024) :: real) \<le> of_int \<bar>n\<bar>" using assms by (simp only: of_int_le_iff)
  then have "pow2 1024 \<le> \<bar>of_int n :: real\<bar>" by (simp add: pow2_def)
  from round_binary64_overflow[OF this] show ?thesis by (simp add: int_to_float_def)
qed

lemma int_to_float_error: "int_to_float n = Inl e \<Longrightarrow> e = OverflowError"
  by (auto simp: int_to_float_def split: binary64.splits)

lemma bitlen_0: "bitlen 0 = 0" by (subst bitlen.simps) simp

lemma bitlen_1: "bitlen 1 = 1" by (subst bitlen.simps) (simp add: bitlen_0)

lemma bitlen_Bit0: "bitlen (numeral (Num.Bit0 k)) = bitlen (numeral k) + 1"
  by (subst bitlen.simps) simp

lemma bitlen_Bit1: "bitlen (numeral (Num.Bit1 k)) = bitlen (numeral k) + 1"
  by (subst bitlen.simps) simp

lemma bitlen_neg: "bitlen (- numeral k) = 0" by (subst bitlen.simps) simp

lemmas bitlen_numeral = bitlen_0 bitlen_1 bitlen_Bit0 bitlen_Bit1 bitlen_neg

lemmas float_eval = round_binary64_def binade_def bitlen_numeral pow2_def round_half_even_def Let_def
  int_to_float_def

section \<open>The claims\<close>

subsection \<open>C1\<close>

text \<open>
  C1. Let the module \<^verbatim>\<open>markets\<close> hold an instrument for the ticker, with records
  strictly ascending by date, that exists at \<^verbatim>\<open>self.today\<close>. Then the day resolves to a
  position \<open>k\<close>, and \<^verbatim>\<open>Strategy.get_instrument\<close> returns an object whose records are
  exactly the records of the instrument up to and including position \<open>k\<close>. The resolved
  day is not after \<^verbatim>\<open>self.today\<close>, no record of the view is dated after the resolved
  day, and the view holds exactly the records of the instrument dated on or before
  \<^verbatim>\<open>self.today\<close>.
\<close>

theorem get_instrument_point_in_time:
  assumes "markets_get_instrument M t = Inr a" and "a < length h"
    and "existed_at_date (h ! a) (today self)" and "ascending (h ! a)"
  shows "\<exists>k. get_day_index_or_last_before (h ! a) (today self) = Inr k
           \<and> k < length (data (h ! a))
           \<and> returned_view (get_instrument M self t h)
               = Some ((h ! a)\<lparr>data := take (Suc k) (data (h ! a))\<rparr>)
           \<and> tr_date (data (h ! a) ! k) \<le> today self
           \<and> (\<forall>r\<in>set (take (Suc k) (data (h ! a))). tr_date r \<le> tr_date (data (h ! a) ! k))
           \<and> take (Suc k) (data (h ! a)) = filter (\<lambda>r. tr_date r \<le> today self) (data (h ! a))"
proof -
  obtain k where k: "get_day_index_or_last_before (h ! a) (today self) = Inr k"
    using index_exists[OF assms(3)] by blast
  have s: "sorted_wrt (<) (map tr_date (data (h ! a)))"
    using assms(4) by (simp add: ascending_def)
  have b: "k < length (data (h ! a))" "tr_date (data (h ! a) ! k) \<le> today self"
    using index_sound[OF k] by simp_all
  have v: "returned_view (get_instrument M self t h)
             = Some ((h ! a)\<lparr>data := take (Suc k) (data (h ! a))\<rparr>)"
    using assms(3) k by (simp add: returned_view_held[OF assms(1)])
  have m: "\<forall>r\<in>set (take (Suc k) (data (h ! a))). tr_date r \<le> tr_date (data (h ! a) ! k)"
  proof
    fix r assume "r \<in> set (take (Suc k) (data (h ! a)))"
    then obtain j where j: "j < Suc k" "j < length (data (h ! a))" "r = data (h ! a) ! j"
      by (auto simp: in_set_conv_nth)
    show "tr_date r \<le> tr_date (data (h ! a) ! k)"
    proof (cases "j = k")
      case True
      then show ?thesis using j by simp
    next
      case False
      then have "j < k" using j by simp
      then show ?thesis using s b j by (simp add: sorted_wrt_iff_nth_less order_less_imp_le)
    qed
  qed
  show ?thesis using k b v m take_index_eq_filter[OF s k] by blast
qed

text \<open>
  The scenario of the spec: at 2020-01-05 the view of ACME ends at 2020-01-02.
\<close>

theorem get_instrument_point_in_time_witness:
  "markets_get_instrument (example_markets []) ''ACME'' = Inr 0
   \<and> 0 < length example_heap
   \<and> existed_at_date (example_heap ! 0) (today (example_strategy 737429))
   \<and> ascending (example_heap ! 0)
   \<and> get_day_index_or_last_before (example_heap ! 0) (today (example_strategy 737429)) = Inr 0
   \<and> returned_view (get_instrument (example_markets []) (example_strategy 737429) ''ACME'' example_heap)
       = Some \<lparr>instrument_ticker = ''ACME'', data = [day 737426 (Some 10) None]\<rparr>"
proof -
  have 1: "markets_get_instrument (example_markets []) ''ACME'' = Inr 0"
    by (simp add: ex_defs)
  have 2: "0 < length example_heap"
    by (simp add: ex_defs)
  have 3: "existed_at_date (example_heap ! 0) (today (example_strategy 737429))"
    by (simp add: existed_at_date_def ex_defs)
  have 4: "ascending (example_heap ! 0)"
    by (simp add: ascending_def ex_defs)
  have 5: "get_day_index_or_last_before (example_heap ! 0) (today (example_strategy 737429)) = Inr 0"
    by (simp add: get_day_index_or_last_before_def ex_defs upt_rec)
  show ?thesis
    using get_instrument_point_in_time[OF 1 2 3 4] 1 2 3 4 5
    by (auto simp add: ex_defs)
qed

subsection \<open>C2\<close>




subsection \<open>C3\<close>

text \<open>
  C3, as the code has it. Take an unfilled order with \<^verbatim>\<open>int\<close> quantity \<open>q\<close> and a
  \<^verbatim>\<open>float\<close> \<open>p\<close>. If \<open>q\<close> converts to a \<^verbatim>\<open>float\<close>, \<^verbatim>\<open>fill(p)\<close> returns normally and
  leaves \<^verbatim>\<open>filled\<close> true, \<^verbatim>\<open>filled_price = p\<close>, \<^verbatim>\<open>brokerage\<close> what the fee schedule
  returns for the order with \<^verbatim>\<open>filled_price\<close> and \<^verbatim>\<open>filled\<close> assigned, \<^verbatim>\<open>cost\<close> the
  binary64 product of \<open>q\<close> and \<open>p\<close>, and \<^verbatim>\<open>total\<close> the binary64 sum of \<^verbatim>\<open>cost\<close> and
  \<^verbatim>\<open>brokerage\<close>. Otherwise the product raises \<^verbatim>\<open>OverflowError\<close>, when \<^verbatim>\<open>filled_price\<close>,
  \<^verbatim>\<open>filled\<close> and \<^verbatim>\<open>brokerage\<close> are assigned and \<^verbatim>\<open>cost\<close> and \<^verbatim>\<open>total\<close> are not. The
  conversion is exact for \<open>\<bar>q\<bar> \<le> 2 ^ 53\<close> and raises for \<open>\<bar>q\<bar> \<ge> 2 ^ 1024\<close>. For
  \<open>\<bar>q\<bar> \<le> 2 ^ 53\<close> a finite \<^verbatim>\<open>cost\<close> in the normal range differs from the exact product
  \<open>q * p\<close> by at most \<open>\<bar>q * p\<bar> / 2 ^ 53\<close>, and after a normal return a finite
  \<^verbatim>\<open>total\<close> in the normal range differs from the exact sum of \<^verbatim>\<open>cost\<close> and
  \<^verbatim>\<open>brokerage\<close> by at most that fraction of the sum.
\<close>

theorem fill_binary64_sets_fields:
  assumes "\<not> filled self"
  shows "(case int_to_float (quantity self) of
            Inr q \<Rightarrow>
              fill_binary64 calculate_brokerage p self
                = (Inr (),
                   self\<lparr>filled_price := Some p, filled := True,
                     brokerage := Some (calculate_brokerage (self\<lparr>filled_price := Some p, filled := True\<rparr>)),
                     cost := Some (float_mul q p),
                     total_amount := Some (float_add (float_mul q p)
                       (calculate_brokerage (self\<lparr>filled_price := Some p, filled := True\<rparr>)))\<rparr>)
          | Inl e \<Rightarrow>
              e = OverflowError
              \<and> fill_binary64 calculate_brokerage p self
                  = (Inl OverflowError,
                     self\<lparr>filled_price := Some p, filled := True,
                       brokerage := Some (calculate_brokerage (self\<lparr>filled_price := Some p, filled := True\<rparr>))\<rparr>))
       \<and> (\<bar>quantity self\<bar> \<le> 2 ^ 53 \<longrightarrow>
            int_to_float (quantity self) = Inr (Finite (of_int (quantity self))))
       \<and> (2 ^ 1024 \<le> \<bar>quantity self\<bar> \<longrightarrow> int_to_float (quantity self) = Inl OverflowError)
       \<and> (\<forall>a c. \<bar>quantity self\<bar> \<le> 2 ^ 53 \<and> p = Finite a
              \<and> cost (snd (fill_binary64 calculate_brokerage p self)) = Some (Finite c)
              \<and> pow2 (- 1022) \<le> \<bar>of_int (quantity self) * a\<bar> \<longrightarrow>
              \<bar>c - of_int (quantity self) * a\<bar> \<le> \<bar>of_int (quantity self) * a\<bar> / 2 ^ 53)
       \<and> (\<forall>c b t. fst (fill_binary64 calculate_brokerage p self) = Inr ()
              \<and> cost (snd (fill_binary64 calculate_brokerage p self)) = Some (Finite c)
              \<and> brokerage (snd (fill_binary64 calculate_brokerage p self)) = Some (Finite b)
              \<and> total_amount (snd (fill_binary64 calculate_brokerage p self)) = Some (Finite t)
              \<and> pow2 (- 1022) \<le> \<bar>c + b\<bar> \<longrightarrow>
              \<bar>t - (c + b)\<bar> \<le> \<bar>c + b\<bar> / 2 ^ 53)"
proof -
  let ?s2 = "self\<lparr>filled_price := Some p, filled := True\<rparr>"
  have 1: "case int_to_float (quantity self) of
            Inr q \<Rightarrow>
              fill_binary64 calculate_brokerage p self
                = (Inr (),
                   self\<lparr>filled_price := Some p, filled := True,
                     brokerage := Some (calculate_brokerage ?s2),
                     cost := Some (float_mul q p),
                     total_amount := Some (float_add (float_mul q p) (calculate_brokerage ?s2))\<rparr>)
          | Inl e \<Rightarrow>
              e = OverflowError
              \<and> fill_binary64 calculate_brokerage p self
                  = (Inl OverflowError,
                     self\<lparr>filled_price := Some p, filled := True,
                       brokerage := Some (calculate_brokerage ?s2)\<rparr>)"
    using int_to_float_error[of "quantity self"]
    by (auto simp: fill_binary64_def Let_def split: sum.splits)
  have 2: "\<bar>quantity self\<bar> \<le> 2 ^ 53 \<longrightarrow>
            int_to_float (quantity self) = Inr (Finite (of_int (quantity self)))"
    by (simp add: int_to_float_exact)
  have 3: "2 ^ 1024 \<le> \<bar>quantity self\<bar> \<longrightarrow> int_to_float (quantity self) = Inl OverflowError"
    by (simp add: int_to_float_overflow)
  have 4: "\<bar>c - of_int (quantity self) * a\<bar> \<le> \<bar>of_int (quantity self) * a\<bar> / 2 ^ 53"
    if h: "\<bar>quantity self\<bar> \<le> 2 ^ 53" "p = Finite a"
      "cost (snd (fill_binary64 calculate_brokerage p self)) = Some (Finite c)"
      "pow2 (- 1022) \<le> \<bar>of_int (quantity self) * a\<bar>" for a c
  proof -
    have q: "int_to_float (quantity self) = Inr (Finite (of_int (quantity self)))"
      using h(1) by (rule int_to_float_exact)
    have "cost (snd (fill_binary64 calculate_brokerage p self))
        = Some (round_binary64 (of_int (quantity self) * a))"
      by (simp add: fill_binary64_def Let_def q h(2))
    then have "round_binary64 (of_int (quantity self) * a) = Finite c" using h(3) by simp
    from round_binary64_error[OF this h(4)] show ?thesis .
  qed
  have 5: "\<bar>t - (c + b)\<bar> \<le> \<bar>c + b\<bar> / 2 ^ 53"
    if h: "fst (fill_binary64 calculate_brokerage p self) = Inr ()"
      "cost (snd (fill_binary64 calculate_brokerage p self)) = Some (Finite c)"
      "brokerage (snd (fill_binary64 calculate_brokerage p self)) = Some (Finite b)"
      "total_amount (snd (fill_binary64 calculate_brokerage p self)) = Some (Finite t)"
      "pow2 (- 1022) \<le> \<bar>c + b\<bar>" for c b t
  proof -
    obtain q where q: "int_to_float (quantity self) = Inr q"
      using h(1) by (cases "int_to_float (quantity self)") (simp_all add: fill_binary64_def Let_def)
    have "float_mul q p = Finite c" using h(2) by (simp add: fill_binary64_def Let_def q)
    moreover have "calculate_brokerage ?s2 = Finite b"
      using h(3) by (simp add: fill_binary64_def Let_def q)
    moreover have "float_add (float_mul q p) (calculate_brokerage ?s2) = Finite t"
      using h(4) by (simp add: fill_binary64_def Let_def q)
    ultimately have "round_binary64 (c + b) = Finite t" by simp
    from round_binary64_error[OF this h(5)] show ?thesis .
  qed
  show ?thesis using 1 2 3 4 5 by blast
qed

text \<open>
  The scenario of the spec: a buy of 100 shares with limit 5.00, filled at 5.10 (the
  binary64 value nearest to it) with brokerage 2.50, has the cost 509.99999999999994 and
  the total 512.5.
\<close>

theorem fill_binary64_sets_fields_witness:
  "\<not> filled (Order ''NHY'' ''buy'' 100 (Some (Finite 5)) :: binary64 order)
   \<and> int_to_float 100 = Inr (Finite 100)
   \<and> round_binary64 (51 / 10) = Finite (2871044762448691 / 562949953421312)
   \<and> fill_binary64 example_brokerage_binary64 (round_binary64 (51 / 10))
        (Order ''NHY'' ''buy'' 100 (Some (Finite 5)))
      = (Inr (),
         \<lparr>ticker = ''NHY'', action = ''buy'', quantity = 100, price = Some (Finite 5),
          filled = True, filled_price = Some (Finite (2871044762448691 / 562949953421312)),
          cost = Some (Finite (8972014882652159 / 17592186044416)),
          brokerage = Some (Finite (5 / 2)), total_amount = Some (Finite (1025 / 2))\<rparr>)"
proof -
  have 1: "\<not> filled (Order ''NHY'' ''buy'' 100 (Some (Finite 5)) :: binary64 order)"
    by (simp add: Order_def)
  have 2: "int_to_float 100 = Inr (Finite 100)"
    by (simp add: float_eval)
  have 3: "round_binary64 (51 / 10) = Finite (2871044762448691 / 562949953421312)"
    by (simp add: float_eval)
  have 4: "float_mul (Finite 100) (Finite (2871044762448691 / 562949953421312))
      = Finite (8972014882652159 / 17592186044416)"
    by (simp add: float_eval)
  have 5: "float_add (Finite (8972014882652159 / 17592186044416)) (Finite (5 / 2)) = Finite (1025 / 2)"
    by (simp add: float_eval)
  have 6: "quantity (Order ''NHY'' ''buy'' 100 (Some (Finite 5)) :: binary64 order) = 100"
    by (simp add: Order_def)
  show ?thesis
    using fill_binary64_sets_fields[OF 1, of example_brokerage_binary64
        "Finite (2871044762448691 / 562949953421312)"] 1 2 3 4 5 6
    by (simp add: Order_def example_brokerage_binary64_def)
qed

text \<open>
  C3, as stated, fails on its own example: the cost of 100 shares filled at 5.10 is the
  binary64 value next below 510.0, not 510.0. And it fails for the quantity \<open>10 ^ 400\<close>,
  where the call raises \<^verbatim>\<open>OverflowError\<close> and leaves \<^verbatim>\<open>cost\<close> and \<^verbatim>\<open>total\<close>
  unassigned.
\<close>

theorem fill_example_counterexample:
  "fill_binary64 example_brokerage_binary64 (round_binary64 (51 / 10))
        (Order ''NHY'' ''buy'' 100 (Some (Finite 5)))
      = (Inr (),
         \<lparr>ticker = ''NHY'', action = ''buy'', quantity = 100, price = Some (Finite 5),
          filled = True, filled_price = Some (Finite (2871044762448691 / 562949953421312)),
          cost = Some (Finite (8972014882652159 / 17592186044416)),
          brokerage = Some (Finite (5 / 2)), total_amount = Some (Finite (1025 / 2))\<rparr>)
   \<and> Finite (8972014882652159 / 17592186044416) \<noteq> Finite 510
   \<and> fill_binary64 example_brokerage_binary64 (Finite (1 / 2))
        (Order ''NHY'' ''buy'' (10 ^ 400) (Some (Finite 5)))
      = (Inl OverflowError,
         \<lparr>ticker = ''NHY'', action = ''buy'', quantity = 10 ^ 400, price = Some (Finite 5),
          filled = True, filled_price = Some (Finite (1 / 2)), cost = None,
          brokerage = Some (Finite (5 / 2)), total_amount = None\<rparr>)"
proof -
  have 6: "int_to_float (10 ^ 400) = Inl OverflowError"
    by (rule int_to_float_overflow) simp
  have a: "fill_binary64 example_brokerage_binary64 (round_binary64 (51 / 10))
        (Order ''NHY'' ''buy'' 100 (Some (Finite 5)))
      = (Inr (),
         \<lparr>ticker = ''NHY'', action = ''buy'', quantity = 100, price = Some (Finite 5),
          filled = True, filled_price = Some (Finite (2871044762448691 / 562949953421312)),
          cost = Some (Finite (8972014882652159 / 17592186044416)),
          brokerage = Some (Finite (5 / 2)), total_amount = Some (Finite (1025 / 2))\<rparr>)"
    by (simp add: fill_binary64_def Order_def example_brokerage_binary64_def float_eval)
  have b: "Finite (8972014882652159 / 17592186044416) \<noteq> Finite 510"
    by simp
  have c: "fill_binary64 example_brokerage_binary64 (Finite (1 / 2))
        (Order ''NHY'' ''buy'' (10 ^ 400) (Some (Finite 5)))
      = (Inl OverflowError,
         \<lparr>ticker = ''NHY'', action = ''buy'', quantity = 10 ^ 400, price = Some (Finite 5),
          filled = True, filled_price = Some (Finite (1 / 2)), cost = None,
          brokerage = Some (Finite (5 / 2)), total_amount = None\<rparr>)"
    using 6 by (simp add: fill_binary64_def Let_def Order_def example_brokerage_binary64_def
        del: power_numeral)
  show ?thesis using a b c by blast
qed

subsection \<open>C4\<close>

text \<open>
  C4. For a ticker whose instrument the module \<^verbatim>\<open>markets\<close> holds,
  \<^verbatim>\<open>Strategy.get_instrument\<close> raises if and only if \<^verbatim>\<open>existed_at_date(self.today)\<close> is
  false, and what it raises then is the \<^verbatim>\<open>ValueError\<close> built from the ticker,
  \<^verbatim>\<open>self.today\<close> and the instrument's first and last date.
\<close>

theorem get_instrument_error:
  assumes "markets_get_instrument M t = Inr a" and "a < length h"
  shows "((\<exists>e. fst (get_instrument M self t h) = Inl e) \<longleftrightarrow> \<not> existed_at_date (h ! a) (today self))
       \<and> (\<not> existed_at_date (h ! a) (today self) \<longrightarrow>
            fst (get_instrument M self t h)
              = Inl (ValueError t (today self) (get_first_date (h ! a)) (get_last_date (h ! a))))"
proof (cases "existed_at_date (h ! a) (today self)")
  case True
  then obtain k where "get_day_index_or_last_before (h ! a) (today self) = Inr k"
    using index_exists by blast
  then show ?thesis using True by (simp add: get_instrument_held[OF assms(1)])
next
  case False
  then show ?thesis by (simp add: get_instrument_held[OF assms(1)])
qed

text \<open>
  The scenario of the spec: ACME at 2020-01-01 raises, with the dates 2020-01-02 and
  2020-01-06; at 2020-01-05 the call returns a new object.
\<close>

theorem get_instrument_error_witness:
  "markets_get_instrument (example_markets []) ''ACME'' = Inr 0
   \<and> 0 < length example_heap
   \<and> existed_at_date (example_heap ! 0) (today (example_strategy 737425)) = False
   \<and> fst (get_instrument (example_markets []) (example_strategy 737425) ''ACME'' example_heap)
       = Inl (ValueError ''ACME'' 737425 (Some 737426) (Some 737430))
   \<and> existed_at_date (example_heap ! 0) (today (example_strategy 737429)) = True
   \<and> fst (get_instrument (example_markets []) (example_strategy 737429) ''ACME'' example_heap) = Inr 2"
proof -
  have 1: "markets_get_instrument (example_markets []) ''ACME'' = Inr 0"
    by (simp add: ex_defs)
  have 2: "0 < length example_heap"
    by (simp add: ex_defs)
  have 3: "\<not> existed_at_date (example_heap ! 0) (today (example_strategy 737425))"
    by (simp add: existed_at_date_def ex_defs)
  have 4: "existed_at_date (example_heap ! 0) (today (example_strategy 737429))"
    by (simp add: existed_at_date_def ex_defs)
  have 5: "get_first_date (example_heap ! 0) = Some 737426"
    by (simp add: get_first_date_def ex_defs)
  have 6: "get_last_date (example_heap ! 0) = Some 737430"
    by (simp add: get_last_date_def ex_defs)
  have 7: "today (example_strategy 737425) = 737425"
    by (simp add: ex_defs)
  have 8: "fst (get_instrument (example_markets []) (example_strategy 737429) ''ACME'' example_heap) = Inr 2"
    by (simp add: get_instrument_def deepcopy_def existed_at_date_def
        get_day_index_or_last_before_def ex_defs upt_rec)
  show ?thesis
    using get_instrument_error[OF 1 2, of "example_strategy 737425"] 1 2 3 4 5 6 7 8
    by simp
qed

subsection \<open>C5\<close>

text \<open>
  C5. Let the module \<^verbatim>\<open>markets\<close> hold an instrument for every ticker of
  \<^verbatim>\<open>get_tickers()\<close>, and let it iterate the tickers in alphabetical order (spec, 4.2).
  Then \<^verbatim>\<open>Strategy.get_instruments\<close> returns normally; the objects it returns are, in
  order, the views that \<^verbatim>\<open>get_instrument\<close> returns for exactly the tickers that pass the
  existence check at \<^verbatim>\<open>self.today\<close>; the list is sorted by ticker; and the objects that
  were there before the call are unchanged.
\<close>

theorem get_instruments_sorted_views:
  assumes "\<forall>t\<in>set (markets_get_tickers M). holds_instrument M h t"
    and "sorted (markets_get_tickers M)"
  shows "case get_instruments M self h of
           (Inr vs, h') \<Rightarrow>
              map (\<lambda>v. Some (h' ! v)) vs
                = map (\<lambda>t. returned_view (get_instrument M self t h))
                    (filter (exists_today M self h) (markets_get_tickers M))
              \<and> map (\<lambda>v. instrument_ticker (h' ! v)) vs
                  = filter (exists_today M self h) (markets_get_tickers M)
              \<and> sorted (map (\<lambda>v. instrument_ticker (h' ! v)) vs)
              \<and> take (length h) h' = h
         | (Inl e, h') \<Rightarrow> False"
proof -
  from get_instruments_loop_result[OF assms(1), of self "[]"] obtain vs ys where
    r: "get_instruments M self h = (Inr vs, h @ ys)"
    and m: "map (\<lambda>v. Some ((h @ ys) ! v)) vs
              = map (\<lambda>t. returned_view (get_instrument M self t h))
                  (filter (exists_today M self h) (markets_get_tickers M))"
    and k: "map (\<lambda>v. instrument_ticker ((h @ ys) ! v)) vs
              = filter (exists_today M self h) (markets_get_tickers M)"
    by (auto simp: get_instruments_def)
  have "sorted (filter (exists_today M self h) (markets_get_tickers M))"
    using assms(2) by (rule sorted_wrt_filter)
  then show ?thesis using r m k by simp
qed

text \<open>
  With the tickers ACME and NAS at 2020-01-02, NAS does not exist yet and is left out.
\<close>

theorem get_instruments_sorted_views_witness:
  "(\<forall>t\<in>set (markets_get_tickers (example_markets [''ACME'', ''NAS''])).
       holds_instrument (example_markets [''ACME'', ''NAS'']) example_heap t) = True
   \<and> sorted (markets_get_tickers (example_markets [''ACME'', ''NAS'']))
   \<and> fst (get_instruments (example_markets [''ACME'', ''NAS'']) (example_strategy 737426) example_heap)
       = Inr [2]
   \<and> snd (get_instruments (example_markets [''ACME'', ''NAS'']) (example_strategy 737426) example_heap) ! 2
       = \<lparr>instrument_ticker = ''ACME'', data = [day 737426 (Some 10) None]\<rparr>
   \<and> filter (exists_today (example_markets [''ACME'', ''NAS'']) (example_strategy 737426) example_heap)
        (markets_get_tickers (example_markets [''ACME'', ''NAS''])) = [''ACME'']"
proof -
  have 1: "\<forall>t\<in>set (markets_get_tickers (example_markets [''ACME'', ''NAS''])).
       holds_instrument (example_markets [''ACME'', ''NAS'']) example_heap t"
    by (simp add: holds_instrument_def ex_defs)
  have 2: "sorted (markets_get_tickers (example_markets [''ACME'', ''NAS'']))"
    by (simp add: ex_defs)
  have 3: "get_instruments (example_markets [''ACME'', ''NAS'']) (example_strategy 737426) example_heap
      = (Inr [2], [acme, nas, \<lparr>instrument_ticker = ''ACME'', data = [day 737426 (Some 10) None]\<rparr>, nas])"
    by (simp add: get_instruments_def get_instrument_def deepcopy_def existed_at_date_def
        np_delete_def get_day_index_or_last_before_def get_first_date_def get_last_date_def
        ex_defs upt_rec)
  have 4: "filter (exists_today (example_markets [''ACME'', ''NAS'']) (example_strategy 737426) example_heap)
        (markets_get_tickers (example_markets [''ACME'', ''NAS''])) = [''ACME'']"
    by (simp add: exists_today_def existed_at_date_def ex_defs)
  show ?thesis
    using get_instruments_sorted_views[OF 1 2, of "example_strategy 737426"] 1 2 3 4
    by simp
qed

subsection \<open>C6\<close>

text \<open>
  C6, on the calendar of the example data: the generator \<^verbatim>\<open>Strategy.trading_days\<close>
  yields one object, the whole sequence that \<^verbatim>\<open>markets.trading_days\<close> returned, and not
  the three dates one after the other.
\<close>

theorem trading_days_yields_one_sequence:
  "trading_days (example_markets []) 737426 737430 = [A_sequence [737426, 737427, 737430]]
   \<and> trading_days (example_markets []) 737426 737430 \<noteq> map A_date [737426, 737427, 737430]
   \<and> length (trading_days (example_markets []) 737426 737430) = 1"
  by (simp add: trading_days_def example_markets_def)

subsection \<open>C7\<close>



subsection \<open>C8\<close>

text \<open>
  C8. Whatever \<^verbatim>\<open>Strategy.get_instrument\<close> returns or raises, every object that was
  there before the call is unchanged afterwards, in particular the instrument that the
  module \<^verbatim>\<open>markets\<close> holds for the ticker; and the reference that a successful call
  returns designates an object allocated by the call, not the shared instrument.
\<close>

theorem get_instrument_frame:
  "take (length h) (snd (get_instrument M self t h)) = h
   \<and> (\<forall>a<length h. snd (get_instrument M self t h) ! a = h ! a)
   \<and> (\<forall>v. fst (get_instrument M self t h) = Inr v \<longrightarrow>
         v = length h \<and> v < length (snd (get_instrument M self t h)))
   \<and> (\<forall>a. markets_get_instrument M t = Inr a \<and> a < length h \<longrightarrow>
         snd (get_instrument M self t h) ! a = h ! a \<and> fst (get_instrument M self t h) \<noteq> Inr a)"
proof -
  obtain ys where ys: "snd (get_instrument M self t h) = h @ ys"
    using get_instrument_extends by blast
  have 1: "take (length h) (snd (get_instrument M self t h)) = h"
    by (simp add: ys)
  have 2: "\<forall>a<length h. snd (get_instrument M self t h) ! a = h ! a"
    by (simp add: ys nth_append)
  have 3: "\<forall>v. fst (get_instrument M self t h) = Inr v \<longrightarrow>
         v = length h \<and> v < length (snd (get_instrument M self t h))"
  proof (intro allI impI)
    fix v assume "fst (get_instrument M self t h) = Inr v"
    then have "get_instrument M self t h = (Inr v, snd (get_instrument M self t h))"
      by (metis prod.collapse)
    from get_instrument_fresh[OF this]
    show "v = length h \<and> v < length (snd (get_instrument M self t h))" by simp
  qed
  show ?thesis using 1 2 3 by auto
qed

text \<open>
  ACME at 2020-01-05: the shared object is unchanged and the shortened array is in a new
  object; at 2020-01-01 the call raises and the two objects of the store are unchanged.
\<close>

theorem get_instrument_frame_witness:
  "snd (get_instrument (example_markets []) (example_strategy 737429) ''ACME'' example_heap) ! 0 = acme
   \<and> snd (get_instrument (example_markets []) (example_strategy 737429) ''ACME'' example_heap) ! 2
       = \<lparr>instrument_ticker = ''ACME'', data = [day 737426 (Some 10) None]\<rparr>
   \<and> fst (get_instrument (example_markets []) (example_strategy 737429) ''ACME'' example_heap) = Inr 2
   \<and> take 2 (snd (get_instrument (example_markets []) (example_strategy 737425) ''ACME'' example_heap))
       = example_heap"
proof -
  have 1: "get_instrument (example_markets []) (example_strategy 737429) ''ACME'' example_heap
      = (Inr 2, [acme, nas, \<lparr>instrument_ticker = ''ACME'', data = [day 737426 (Some 10) None]\<rparr>])"
    by (simp add: get_instrument_def deepcopy_def existed_at_date_def np_delete_def
        get_day_index_or_last_before_def ex_defs upt_rec)
  have 2: "length example_heap = 2"
    by (simp add: ex_defs)
  show ?thesis
    using get_instrument_frame[of example_heap "example_markets []" "example_strategy 737425" "''ACME''"]
      1 2
    by simp
qed

subsection \<open>C9\<close>

text \<open>
  C9. The base \<^verbatim>\<open>Strategy.execute(today, portfolio, money)\<close> returns \<^verbatim>\<open>None\<close> and
  leaves a strategy whose fields \<^verbatim>\<open>today\<close>, \<^verbatim>\<open>portfolio\<close> and \<^verbatim>\<open>money\<close> are the
  arguments, and whose \<^verbatim>\<open>from_date\<close>, \<^verbatim>\<open>to_date\<close> and attributes added by a subclass
  are unchanged.
\<close>

theorem execute_frame:
  "execute t pf m self = (None, self\<lparr>today := t, portfolio := pf, money := m\<rparr>)
   \<and> today (snd (execute t pf m self)) = t
   \<and> portfolio (snd (execute t pf m self)) = pf
   \<and> money (snd (execute t pf m self)) = m
   \<and> from_date (snd (execute t pf m self)) = from_date self
   \<and> to_date (snd (execute t pf m self)) = to_date self
   \<and> strategy.more (snd (execute t pf m self)) = strategy.more self"
  by (simp add: execute_def Let_def)

text \<open>
  A strategy over 2020-01-01 to 2020-01-06, executed at 2020-01-05.
\<close>

theorem execute_frame_witness:
  "execute 737429 Map.empty 900 (Strategy 1000 Map.empty 737425 737430)
     = (None, \<lparr>money = 900, portfolio = Map.empty, today = 737429,
               from_date = 737425, to_date = 737430\<rparr>)"
  using execute_frame [of 737429 Map.empty 900 "Strategy 1000 Map.empty 737425 737430"]
  by (simp add: Strategy_def)

subsection \<open>C10\<close>

text \<open>
  C10. Let the module \<^verbatim>\<open>markets\<close> hold an instrument for every ticker of
  \<^verbatim>\<open>get_tickers()\<close>. Then the tickers of the views that \<^verbatim>\<open>Strategy.get_instruments\<close>
  returns are, in this order, the tickers of \<^verbatim>\<open>get_tickers()\<close> that pass the existence
  check at \<^verbatim>\<open>self.today\<close>; so the result is sorted by ticker if and only if that
  restriction of the iteration order is.
\<close>

theorem get_instruments_order:
  assumes "\<forall>t\<in>set (markets_get_tickers M). holds_instrument M h t"
  shows "case get_instruments M self h of
           (Inr vs, h') \<Rightarrow>
              map (\<lambda>v. instrument_ticker (h' ! v)) vs
                = filter (exists_today M self h) (markets_get_tickers M)
              \<and> (sorted (map (\<lambda>v. instrument_ticker (h' ! v)) vs)
                   \<longleftrightarrow> sorted (filter (exists_today M self h) (markets_get_tickers M)))
         | (Inl e, h') \<Rightarrow> False"
proof -
  from get_instruments_loop_result[OF assms(1), of self "[]"] obtain vs ys where
    r: "get_instruments M self h = (Inr vs, h @ ys)"
    and k: "map (\<lambda>v. instrument_ticker ((h @ ys) ! v)) vs
              = filter (exists_today M self h) (markets_get_tickers M)"
    by (auto simp: get_instruments_def)
  show ?thesis using r k by simp
qed

text \<open>
  With the iteration order NAS, ACME at 2020-01-05 the views come in the order NAS, ACME,
  which is not alphabetical.
\<close>

theorem get_instruments_order_witness:
  "(\<forall>t\<in>set (markets_get_tickers (example_markets [''NAS'', ''ACME''])).
       holds_instrument (example_markets [''NAS'', ''ACME'']) example_heap t) = True
   \<and> fst (get_instruments (example_markets [''NAS'', ''ACME'']) (example_strategy 737429) example_heap)
       = Inr [2, 3]
   \<and> map (\<lambda>v. instrument_ticker
          (snd (get_instruments (example_markets [''NAS'', ''ACME'']) (example_strategy 737429) example_heap) ! v))
        [2, 3] = [''NAS'', ''ACME'']
   \<and> sorted [''NAS'', ''ACME''] = False"
proof -
  have 1: "\<forall>t\<in>set (markets_get_tickers (example_markets [''NAS'', ''ACME''])).
       holds_instrument (example_markets [''NAS'', ''ACME'']) example_heap t"
    by (simp add: holds_instrument_def ex_defs)
  have 3: "get_instruments (example_markets [''NAS'', ''ACME'']) (example_strategy 737429) example_heap
      = (Inr [2, 3], [acme, nas,
          \<lparr>instrument_ticker = ''NAS'', data = [day 737427 None (Some 25)]\<rparr>,
          \<lparr>instrument_ticker = ''ACME'', data = [day 737426 (Some 10) None]\<rparr>])"
    by (simp add: get_instruments_def get_instrument_def deepcopy_def existed_at_date_def
        np_delete_def get_day_index_or_last_before_def get_first_date_def get_last_date_def
        ex_defs upt_rec)
  show ?thesis
    using get_instruments_order[OF 1, of "example_strategy 737429"] 1 3
    by simp
qed

end
